theory Spec2Isabelle
  imports Main
begin

section \<open>Data model of \<open>neuraxle_tensorflow/tensorflow_v2.py\<close>\<close>

text \<open>
  The module is an adapter between a pipeline step and the deep-learning runtime. What it
  does is: read and assign fields of the step, call the user's factories, and call the
  runtime. The embedding keeps exactly that: the step is a record, every object made by a
  factory or by the runtime is an opaque handle, and every call that leaves the module is
  appended to a log, in the order in which Python evaluates it.
\<close>

datatype optimizer_obj = Optimizer nat
datatype model_obj = Model nat
datatype variable_obj = Variable nat
datatype checkpoint_obj = Checkpoint nat
datatype manager_obj = CheckpointManager nat
datatype tensor_obj = Tensor nat
datatype tape_obj = GradientTape nat

text \<open>Plain Python values that a caller hands to \<open>fit\<close> and \<open>transform\<close>.\<close>

datatype pyval = PyNone | PyArray "int list"

datatype execution_context = ExecutionContext string

text \<open>
  The exceptions. \<open>AttributeError\<close> and \<open>TypeError\<close> are what Python raises when an
  attribute is read from \<open>None\<close> and when \<open>None\<close> is called; \<open>Raised name\<close> is any exception
  that comes out of a factory or of the runtime. Nothing in the module catches an exception.
\<close>

datatype error = AttributeError | TypeError | Raised string

text \<open>
  The fields of \<open>Tensorflow2ModelStep\<close> that the module reads or assigns. A field that
  holds \<open>None\<close> is \<open>None\<close> here. The three factories are not fields of the record: the module
  never assigns them after construction, so they are part of the environment below.
\<close>

record step =
  tf_model_checkpoint_folder :: string
  is_initialized :: bool
  optimizer :: "optimizer_obj option"
  model :: "model_obj option"
  checkpoint :: "checkpoint_obj option"
  checkpoint_manager :: "manager_obj option"
  loss :: "tensor_obj option"

text \<open>One constructor for each call that leaves the module, with the arguments passed.\<close>

datatype event =
    CreateOptimizer step
  | CreateModel step
  | CreateLoss step tensor_obj tensor_obj
  | TfVariable int
  | TfCheckpoint variable_obj optimizer_obj model_obj
  | TfCheckpointManager checkpoint_obj string nat
  | ConvertToTensor pyval
  | TapeEnter
  | TapeExit tape_obj
  | CallModel model_obj tensor_obj
  | TrainableVariables model_obj
  | TapeGradient tape_obj "tensor_obj option" "variable_obj list"
  | ApplyGradients optimizer_obj "(tensor_obj \<times> variable_obj) list"
  | Numpy tensor_obj
  | ManagerSave manager_obj
  | LatestCheckpoint manager_obj
  | Restore checkpoint_obj "string option"

text \<open>
  The environment: the user's three factories and the operations of the runtime that the
  module calls. Each takes the log of the calls made before it, so its answer may depend on
  everything that happened earlier (weights trained, files written), and each may raise.
\<close>

record env =
  create_optimizer :: "event list \<Rightarrow> step \<Rightarrow> error + optimizer_obj"
  create_model :: "event list \<Rightarrow> step \<Rightarrow> error + model_obj"
  create_loss :: "event list \<Rightarrow> step \<Rightarrow> tensor_obj \<Rightarrow> tensor_obj \<Rightarrow> error + tensor_obj"
  tf_Variable :: "event list \<Rightarrow> int \<Rightarrow> error + variable_obj"
  tf_train_Checkpoint ::
    "event list \<Rightarrow> variable_obj \<Rightarrow> optimizer_obj \<Rightarrow> model_obj \<Rightarrow> error + checkpoint_obj"
  tf_train_CheckpointManager ::
    "event list \<Rightarrow> checkpoint_obj \<Rightarrow> string \<Rightarrow> nat \<Rightarrow> error + manager_obj"
  tf_convert_to_tensor :: "event list \<Rightarrow> pyval \<Rightarrow> error + tensor_obj"
  tf_GradientTape :: "event list \<Rightarrow> error + tape_obj"
  model_call :: "event list \<Rightarrow> model_obj \<Rightarrow> tensor_obj \<Rightarrow> error + tensor_obj"
  trainable_variables :: "event list \<Rightarrow> model_obj \<Rightarrow> error + variable_obj list"
  tape_gradient ::
    "event list \<Rightarrow> tape_obj \<Rightarrow> tensor_obj option \<Rightarrow> variable_obj list \<Rightarrow> error + tensor_obj list"
  apply_gradients ::
    "event list \<Rightarrow> optimizer_obj \<Rightarrow> (tensor_obj \<times> variable_obj) list \<Rightarrow> error + unit"
  numpy :: "event list \<Rightarrow> tensor_obj \<Rightarrow> error + pyval"
  manager_save :: "event list \<Rightarrow> manager_obj \<Rightarrow> error + string"
  latest_checkpoint :: "event list \<Rightarrow> manager_obj \<Rightarrow> error + string option"
  checkpoint_restore :: "event list \<Rightarrow> checkpoint_obj \<Rightarrow> string option \<Rightarrow> error + unit"

section \<open>Sequencing: a log that survives an exception\<close>

text \<open>
  A computation takes the log so far and gives back its outcome (an exception or a value)
  together with the extended log. The log is returned in both cases: the calls made before
  an exception were made.
\<close>

type_synonym 'a prog = "event list \<Rightarrow> (error + 'a) \<times> event list"

definition ret :: "'a \<Rightarrow> 'a prog" where
  "ret x h = (Inr x, h)"

definition raise :: "error \<Rightarrow> 'a prog" where
  "raise e h = (Inl e, h)"

definition pbind :: "'a prog \<Rightarrow> ('a \<Rightarrow> 'b prog) \<Rightarrow> 'b prog" where
  "pbind m f h = (case m h of (Inl e, h') \<Rightarrow> (Inl e, h') | (Inr x, h') \<Rightarrow> f x h')"

definition call :: "event \<Rightarrow> (event list \<Rightarrow> error + 'a) \<Rightarrow> 'a prog" where
  "call ev answer h = (answer h, h @ [ev])"

text \<open>
  \<open>with tf.GradientTape() as tape: body\<close>: the tape is made and entered, the body runs, and
  the tape is left whether the body returned or raised; an exception of the body goes on.
\<close>

definition with_GradientTape :: "env \<Rightarrow> (tape_obj \<Rightarrow> 'a prog) \<Rightarrow> (tape_obj \<times> 'a) prog" where
  "with_GradientTape env body =
     pbind (call TapeEnter (tf_GradientTape env)) (\<lambda>tape h.
       case body tape h of (r, h') \<Rightarrow> (map_sum id (Pair tape) r, h' @ [TapeExit tape]))"

section \<open>\<open>Tensorflow2ModelStep\<close>\<close>

text \<open>
  Modelled from the spec: \<open>BaseTensorflowModelStep.__init__\<close> (module
  \<open>neuraxle_tensorflow.tensorflow\<close>) and the \<open>BaseStep.__init__\<close> it calls are not among the
  sources. The spec says that an adapter is created uninitialized and that it holds live
  references only while initialized: the flag is false and no reference is held. A
  reference that was never assigned is \<open>None\<close> here, as it is after \<open>strip\<close>.
\<close>

definition BaseTensorflowModelStep_init :: step where
  "BaseTensorflowModelStep_init =
     \<lparr>tf_model_checkpoint_folder = [], is_initialized = False, optimizer = None,
      model = None, checkpoint = None, checkpoint_manager = None, loss = None\<rparr>"

text \<open>\<open>__init__\<close>, lines 39-56. The argument is \<open>None\<close> when the caller omits it.\<close>

definition Tensorflow2ModelStep_init :: "string option \<Rightarrow> step" where
  "Tensorflow2ModelStep_init folder_arg =
     BaseTensorflowModelStep_init
       \<lparr>tf_model_checkpoint_folder :=
          (case folder_arg of None \<Rightarrow> ''tensorflow_ckpts'' | Some folder \<Rightarrow> folder)\<rparr>"

text \<open>
  \<open>setup\<close>, lines 58-80. The model factory receives the step after the optimizer has been
  assigned to it. The keyword arguments of \<open>tf.train.Checkpoint\<close> are evaluated left to
  right, so \<open>tf.Variable(1)\<close> is called before the checkpoint is made.
\<close>

definition setup_step :: "env \<Rightarrow> step \<Rightarrow> step prog" where
  "setup_step env self =
     (if is_initialized self then ret self
      else
        pbind (call (CreateOptimizer self) (\<lambda>h. create_optimizer env h self)) (\<lambda>opt.
        let self = self\<lparr>optimizer := Some opt\<rparr> in
        pbind (call (CreateModel self) (\<lambda>h. create_model env h self)) (\<lambda>m.
        let self = self\<lparr>model := Some m\<rparr> in
        pbind (call (TfVariable 1) (\<lambda>h. tf_Variable env h 1)) (\<lambda>v.
        pbind (call (TfCheckpoint v opt m) (\<lambda>h. tf_train_Checkpoint env h v opt m)) (\<lambda>ck.
        let self = self\<lparr>checkpoint := Some ck\<rparr> in
        pbind (call (TfCheckpointManager ck (tf_model_checkpoint_folder self) 3)
                 (\<lambda>h. tf_train_CheckpointManager env h ck (tf_model_checkpoint_folder self) 3))
          (\<lambda>cm.
        let self = self\<lparr>checkpoint_manager := Some cm\<rparr> in
        let self = self\<lparr>is_initialized := True\<rparr> in
        ret self))))))"

text \<open>\<open>strip\<close>, lines 82-91. It calls nothing and cannot raise.\<close>

definition strip :: "'a step_scheme \<Rightarrow> 'a step_scheme" where
  "strip self =
     self\<lparr>optimizer := None, model := None, checkpoint := None, checkpoint_manager := None\<rparr>"

text \<open>
  \<open>fit\<close>, lines 93-106. \<open>self.model(x)\<close> with \<open>self.model\<close> being \<open>None\<close> is a \<open>TypeError\<close>.
  In the last statement Python evaluates \<open>self.optimizer.apply_gradients\<close> first (an
  \<open>AttributeError\<close> when the optimizer is \<open>None\<close>), then the arguments of \<open>zip\<close> from left to
  right, each reading \<open>self.model.trainable_variables\<close>, and then makes the call. \<open>zip\<close>
  pairs by position and stops at the shorter list, as \<^const>\<open>zip\<close> does.
\<close>

definition get_trainable_variables :: "env \<Rightarrow> step \<Rightarrow> variable_obj list prog" where
  "get_trainable_variables env self =
     (case model self of
        None \<Rightarrow> raise AttributeError
      | Some m \<Rightarrow> call (TrainableVariables m) (\<lambda>h. trainable_variables env h m))"

definition call_model :: "env \<Rightarrow> step \<Rightarrow> tensor_obj \<Rightarrow> tensor_obj prog" where
  "call_model env self x =
     (case model self of
        None \<Rightarrow> raise TypeError
      | Some m \<Rightarrow> call (CallModel m x) (\<lambda>h. model_call env h m x))"

definition fit :: "env \<Rightarrow> step \<Rightarrow> pyval \<Rightarrow> pyval \<Rightarrow> step prog" where
  "fit env self data_inputs expected_outputs =
     pbind (call (ConvertToTensor data_inputs) (\<lambda>h. tf_convert_to_tensor env h data_inputs))
       (\<lambda>x.
     pbind (call (ConvertToTensor expected_outputs)
              (\<lambda>h. tf_convert_to_tensor env h expected_outputs)) (\<lambda>y.
     pbind (with_GradientTape env (\<lambda>tape.
              pbind (call_model env self x) (\<lambda>output.
              pbind (call (CreateLoss self y output) (\<lambda>h. create_loss env h self y output))
                (\<lambda>l.
              ret (self\<lparr>loss := Some l\<rparr>))))) (\<lambda>(tape, self).
     case optimizer self of
       None \<Rightarrow> raise AttributeError
     | Some opt \<Rightarrow>
         pbind (get_trainable_variables env self) (\<lambda>sources.
         pbind (call (TapeGradient tape (loss self) sources)
                  (\<lambda>h. tape_gradient env h tape (loss self) sources)) (\<lambda>grads.
         pbind (get_trainable_variables env self) (\<lambda>vars.
         pbind (call (ApplyGradients opt (zip grads vars))
                  (\<lambda>h. apply_gradients env h opt (zip grads vars))) (\<lambda>_.
         ret self)))))))"

text \<open>
  \<open>transform\<close>, lines 108-109. The argument of \<open>self.model(...)\<close> is evaluated before the
  call is attempted, so the conversion is made even when the model is \<open>None\<close>.
\<close>

definition transform :: "env \<Rightarrow> step \<Rightarrow> pyval \<Rightarrow> pyval prog" where
  "transform env self data_inputs =
     pbind (call (ConvertToTensor data_inputs) (\<lambda>h. tf_convert_to_tensor env h data_inputs))
       (\<lambda>x.
     pbind (call_model env self x) (\<lambda>output.
     call (Numpy output) (\<lambda>h. numpy env h output)))"

section \<open>\<open>TensorflowV2StepSaver\<close>\<close>

text \<open>\<open>save_step\<close>, lines 122-134. The value of \<open>save()\<close> is dropped.\<close>

definition save_step :: "env \<Rightarrow> step \<Rightarrow> execution_context \<Rightarrow> step prog" where
  "save_step env step context =
     (case checkpoint_manager step of
        None \<Rightarrow> raise AttributeError
      | Some cm \<Rightarrow>
          pbind (call (ManagerSave cm) (\<lambda>h. manager_save env h cm)) (\<lambda>_.
          ret (strip step)))"

text \<open>
  \<open>load_step\<close>, lines 136-149. In the last statement \<open>step.checkpoint.restore\<close> is looked up
  before the argument \<open>step.checkpoint_manager.latest_checkpoint\<close> is read.
\<close>

definition load_step :: "env \<Rightarrow> step \<Rightarrow> execution_context \<Rightarrow> step prog" where
  "load_step env step context =
     (let step = step\<lparr>is_initialized := False\<rparr> in
      pbind (setup_step env step) (\<lambda>step.
      case checkpoint step of
        None \<Rightarrow> raise AttributeError
      | Some ck \<Rightarrow>
          (case checkpoint_manager step of
             None \<Rightarrow> raise AttributeError
           | Some cm \<Rightarrow>
               pbind (call (LatestCheckpoint cm) (\<lambda>h. latest_checkpoint env h cm)) (\<lambda>path.
               pbind (call (Restore ck path) (\<lambda>h. checkpoint_restore env h ck path)) (\<lambda>_.
               ret step)))))"

text \<open>\<open>can_load\<close>, lines 151-161.\<close>

definition can_load :: "'a step_scheme \<Rightarrow> execution_context \<Rightarrow> bool" where
  "can_load step context = True"

section \<open>Sequences of public calls\<close>

text \<open>
  A client holds one step and calls the public operations on it one after the other. Each
  constructor below is one such call; \<open>run\<close> makes the calls in order, each on the step
  that the one before returned, and stops at the first exception. \<open>strip\<close>, \<open>transform\<close>
  and \<open>can_load\<close> do not return the step; the client goes on with the step it holds.
\<close>

datatype operation =
    Setup
  | Strip
  | Fit pyval pyval
  | Transform pyval
  | SaveStep execution_context
  | LoadStep execution_context
  | CanLoad execution_context

fun apply_operation :: "env \<Rightarrow> operation \<Rightarrow> step \<Rightarrow> step prog" where
  "apply_operation env Setup s = setup_step env s"
| "apply_operation env Strip s = ret (strip s)"
| "apply_operation env (Fit data_inputs expected_outputs) s =
     fit env s data_inputs expected_outputs"
| "apply_operation env (Transform data_inputs) s =
     pbind (transform env s data_inputs) (\<lambda>outputs. ret s)"
| "apply_operation env (SaveStep context) s = save_step env s context"
| "apply_operation env (LoadStep context) s = load_step env s context"
| "apply_operation env (CanLoad context) s = pbind (ret (can_load s context)) (\<lambda>answer. ret s)"

fun run :: "env \<Rightarrow> operation list \<Rightarrow> step \<Rightarrow> step prog" where
  "run env [] s = ret s"
| "run env (op # ops) s = pbind (apply_operation env op s) (run env ops)"




section \<open>Two concrete environments\<close>

text \<open>
  In \<open>stub_env\<close> no call raises, and every object made is numbered by the number of calls
  made before it, so that two objects made at different times differ. The latest checkpoint
  is absent until some manager has saved.
\<close>

definition stub_env :: env where
  "stub_env =
     \<lparr>create_optimizer = (\<lambda>h self. Inr (Optimizer (length h))),
      create_model = (\<lambda>h self. Inr (Model (length h))),
      create_loss = (\<lambda>h self y output. Inr (Tensor (length h))),
      tf_Variable = (\<lambda>h n. Inr (Variable (length h))),
      tf_train_Checkpoint = (\<lambda>h v opt m. Inr (Checkpoint (length h))),
      tf_train_CheckpointManager = (\<lambda>h ck folder keep. Inr (CheckpointManager (length h))),
      tf_convert_to_tensor = (\<lambda>h v. Inr (Tensor (length h))),
      tf_GradientTape = (\<lambda>h. Inr (GradientTape (length h))),
      model_call = (\<lambda>h m x. Inr (Tensor (length h))),
      trainable_variables = (\<lambda>h m. Inr [Variable 100, Variable 101]),
      tape_gradient = (\<lambda>h tape l sources. Inr (map (\<lambda>v. Tensor (length h)) sources)),
      apply_gradients = (\<lambda>h opt pairs. Inr ()),
      numpy = (\<lambda>h t. Inr (PyArray [])),
      manager_save = (\<lambda>h cm. Inr ''ckpt-1''),
      latest_checkpoint =
        (\<lambda>h cm. Inr (if list_ex (\<lambda>e. case e of ManagerSave c \<Rightarrow> True | _ \<Rightarrow> False) h
                        then Some ''ckpt-1'' else None)),
      checkpoint_restore = (\<lambda>h ck path. Inr ())\<rparr>"

text \<open>
  \<open>strict_env\<close> differs in one place: converting \<open>None\<close> to a tensor raises, which is what
  the runtime does.
\<close>

definition strict_env :: env where
  "strict_env =
     stub_env\<lparr>tf_convert_to_tensor :=
       (\<lambda>h v. case v of PyNone \<Rightarrow> Inl (Raised ''ValueError'')
                | PyArray xs \<Rightarrow> Inr (Tensor (length h)))\<rparr>"

text \<open>
  The step that \<open>setup\<close> returns in \<open>stub_env\<close> for a step constructed without a folder, and
  the log of that \<open>setup\<close>.
\<close>

definition example_step :: step where
  "example_step =
     \<lparr>tf_model_checkpoint_folder = ''tensorflow_ckpts'', is_initialized = True,
      optimizer = Some (Optimizer 0), model = Some (Model 1),
      checkpoint = Some (Checkpoint 3), checkpoint_manager = Some (CheckpointManager 4),
      loss = None\<rparr>"

definition example_log :: "event list" where
  "example_log =
     [CreateOptimizer (Tensorflow2ModelStep_init None),
      CreateModel ((Tensorflow2ModelStep_init None)\<lparr>optimizer := Some (Optimizer 0)\<rparr>),
      TfVariable 1,
      TfCheckpoint (Variable 2) (Optimizer 0) (Model 1),
      TfCheckpointManager (Checkpoint 3) ''tensorflow_ckpts'' 3]"

section \<open>Properties\<close>

lemmas prog_defs = ret_def raise_def pbind_def call_def with_GradientTape_def Let_def

lemmas init_defs = Tensorflow2ModelStep_init_def BaseTensorflowModelStep_init_def

subsection \<open>What each operation returns\<close>

lemma pbind_returns:
  "pbind m f h = (Inr y, h') \<longleftrightarrow> (\<exists>x h1. m h = (Inr x, h1) \<and> f x h1 = (Inr y, h'))"
  by (auto simp add: pbind_def split: prod.splits sum.splits)

lemma setup_step_returns:
  assumes "setup_step env s h = (Inr s', h')"
  shows "s' = s \<or>
         (\<exists>opt m ck cm. s' = s\<lparr>optimizer := Some opt, model := Some m, checkpoint := Some ck,
                                 checkpoint_manager := Some cm, is_initialized := True\<rparr>)"
  using assms
  by (auto simp add: setup_step_def prog_defs split: if_splits sum.splits)

lemma fit_returns:
  assumes "fit env s data_inputs expected_outputs h = (Inr s', h')"
  shows "\<exists>l. s' = s\<lparr>loss := Some l\<rparr>"
  using assms
  by (auto simp add: fit_def call_model_def get_trainable_variables_def prog_defs
           split: sum.splits option.splits prod.splits)

lemma save_step_returns:
  assumes "save_step env s ctx h = (Inr s', h')"
  shows "s' = strip s"
  using assms
  by (auto simp add: save_step_def prog_defs split: sum.splits option.splits)

lemma load_step_returns:
  assumes "load_step env s ctx h = (Inr s', h')"
  shows "\<exists>opt m ck cm. s' = s\<lparr>optimizer := Some opt, model := Some m, checkpoint := Some ck,
                                checkpoint_manager := Some cm, is_initialized := True\<rparr>"
  using assms
  by (auto simp add: load_step_def setup_step_def prog_defs
           split: sum.splits option.splits prod.splits)

lemma apply_operation_folder:
  assumes "apply_operation env op s h = (Inr s', h')"
  shows "tf_model_checkpoint_folder s' = tf_model_checkpoint_folder s"
proof (cases op)
  case Setup
  with assms setup_step_returns [of env s h s' h'] show ?thesis by auto
next
  case Strip
  with assms show ?thesis by (auto simp add: ret_def strip_def)
next
  case (Fit data_inputs expected_outputs)
  with assms fit_returns [of env s data_inputs expected_outputs h s' h'] show ?thesis by auto
next
  case (Transform data_inputs)
  with assms show ?thesis by (auto simp add: pbind_returns ret_def)
next
  case (SaveStep ctx)
  with assms save_step_returns [of env s ctx h s' h'] show ?thesis by (auto simp add: strip_def)
next
  case (LoadStep ctx)
  with assms load_step_returns [of env s ctx h s' h'] show ?thesis by auto
next
  case (CanLoad ctx)
  with assms show ?thesis by (auto simp add: pbind_returns ret_def)
qed

lemma run_folder:
  "run env ops s h = (Inr s', h') \<Longrightarrow>
   tf_model_checkpoint_folder s' = tf_model_checkpoint_folder s"
proof (induction ops arbitrary: s h)
  case Nil
  then show ?case by (simp add: ret_def)
next
  case (Cons op ops)
  from Cons.prems obtain s1 h1
    where first: "apply_operation env op s h = (Inr s1, h1)"
      and rest: "run env ops s1 h1 = (Inr s', h')"
    by (auto simp add: pbind_returns)
  from Cons.IH [OF rest] apply_operation_folder [OF first] show ?case by simp
qed



subsection \<open>The saver\<close>

text \<open>
  C1. Let the step be initialized: its flag is true and it holds its checkpoint-manager
  \<open>cm\<close>. When the manager's \<open>save()\<close> returns, \<open>save_step\<close> has made exactly one call, the
  \<open>save()\<close> of the manager that the step held on entry (so the step was not yet stripped),
  and it returns the step stripped: model, optimizer, checkpoint and checkpoint-manager are
  \<open>None\<close> and the flag is still true.
\<close>

theorem save_step_saves_then_strips:
  assumes "is_initialized step" and "checkpoint_manager step = Some cm"
    and "manager_save env h cm = Inr path"
  shows "save_step env step ctx h = (Inr (strip step), h @ [ManagerSave cm]) \<and>
         model (strip step) = None \<and> optimizer (strip step) = None \<and>
         checkpoint (strip step) = None \<and> checkpoint_manager (strip step) = None \<and>
         is_initialized (strip step)"
  using assms by (simp add: save_step_def prog_defs strip_def)

theorem save_step_saves_then_strips_witness:
  "save_step stub_env example_step (ExecutionContext ''ctx'') example_log =
     (Inr (strip example_step), example_log @ [ManagerSave (CheckpointManager 4)]) \<and>
   model (strip example_step) = None \<and> optimizer (strip example_step) = None \<and>
   checkpoint (strip example_step) = None \<and>
   checkpoint_manager (strip example_step) = None \<and>
   is_initialized (strip example_step)"
  by (rule save_step_saves_then_strips [where path = "''ckpt-1''"])
    (simp_all add: example_step_def stub_env_def)

text \<open>
  C2. Whatever the state of the step, and whatever its flag, \<open>load_step\<close> calls the two
  factories on the step with its flag set to false, optimizer first, then makes the
  variable, the checkpoint and the checkpoint-manager, then reads the manager's latest
  checkpoint and restores the new checkpoint from it. When these calls return, it returns
  the step holding the four new objects with its flag true.
\<close>

theorem load_step_rebuilds_then_restores:
  assumes "create_optimizer env h (step\<lparr>is_initialized := False\<rparr>) = Inr opt"
    and "create_model env (h @ [CreateOptimizer (step\<lparr>is_initialized := False\<rparr>)])
           (step\<lparr>is_initialized := False, optimizer := Some opt\<rparr>) = Inr m"
    and "tf_Variable env
           (h @ [CreateOptimizer (step\<lparr>is_initialized := False\<rparr>),
                 CreateModel (step\<lparr>is_initialized := False, optimizer := Some opt\<rparr>)]) 1
           = Inr v"
    and "tf_train_Checkpoint env
           (h @ [CreateOptimizer (step\<lparr>is_initialized := False\<rparr>),
                 CreateModel (step\<lparr>is_initialized := False, optimizer := Some opt\<rparr>),
                 TfVariable 1]) v opt m = Inr ck"
    and "tf_train_CheckpointManager env
           (h @ [CreateOptimizer (step\<lparr>is_initialized := False\<rparr>),
                 CreateModel (step\<lparr>is_initialized := False, optimizer := Some opt\<rparr>),
                 TfVariable 1, TfCheckpoint v opt m])
           ck (tf_model_checkpoint_folder step) 3 = Inr cm"
    and "latest_checkpoint env
           (h @ [CreateOptimizer (step\<lparr>is_initialized := False\<rparr>),
                 CreateModel (step\<lparr>is_initialized := False, optimizer := Some opt\<rparr>),
                 TfVariable 1, TfCheckpoint v opt m,
                 TfCheckpointManager ck (tf_model_checkpoint_folder step) 3]) cm = Inr path"
    and "checkpoint_restore env
           (h @ [CreateOptimizer (step\<lparr>is_initialized := False\<rparr>),
                 CreateModel (step\<lparr>is_initialized := False, optimizer := Some opt\<rparr>),
                 TfVariable 1, TfCheckpoint v opt m,
                 TfCheckpointManager ck (tf_model_checkpoint_folder step) 3,
                 LatestCheckpoint cm]) ck path = Inr ()"
  shows "load_step env step ctx h =
           (Inr (step\<lparr>is_initialized := True, optimizer := Some opt, model := Some m,
                      checkpoint := Some ck, checkpoint_manager := Some cm\<rparr>),
            h @ [CreateOptimizer (step\<lparr>is_initialized := False\<rparr>),
                 CreateModel (step\<lparr>is_initialized := False, optimizer := Some opt\<rparr>),
                 TfVariable 1, TfCheckpoint v opt m,
                 TfCheckpointManager ck (tf_model_checkpoint_folder step) 3,
                 LatestCheckpoint cm, Restore ck path])"
  using assms by (simp add: load_step_def setup_step_def prog_defs)

theorem load_step_rebuilds_then_restores_witness:
  "load_step stub_env example_step (ExecutionContext ''ctx'')
     (example_log @ [ManagerSave (CheckpointManager 4)]) =
     (Inr (example_step\<lparr>is_initialized := True, optimizer := Some (Optimizer 6),
                        model := Some (Model 7), checkpoint := Some (Checkpoint 9),
                        checkpoint_manager := Some (CheckpointManager 10)\<rparr>),
      (example_log @ [ManagerSave (CheckpointManager 4)]) @
        [CreateOptimizer (example_step\<lparr>is_initialized := False\<rparr>),
         CreateModel (example_step\<lparr>is_initialized := False, optimizer := Some (Optimizer 6)\<rparr>),
         TfVariable 1, TfCheckpoint (Variable 8) (Optimizer 6) (Model 7),
         TfCheckpointManager (Checkpoint 9) (tf_model_checkpoint_folder example_step) 3,
         LatestCheckpoint (CheckpointManager 10),
         Restore (Checkpoint 9) (Some ''ckpt-1'')])"
  by (rule load_step_rebuilds_then_restores)
    (simp_all add: example_step_def example_log_def stub_env_def)

text \<open>
  C8. For every step, in whatever state, and every execution context, \<open>can_load\<close> answers
  true.
\<close>

theorem can_load_always_true: "can_load step ctx = True"
  by (simp add: can_load_def)

subsection \<open>The lifecycle of the step\<close>

text \<open>
  C3. On a step whose flag is true, \<open>setup\<close> returns that step unchanged and makes no call.
  For every step, calling \<open>setup\<close> and then \<open>setup\<close> again on the step returned has the same
  outcome and the same log as calling it once.
\<close>

theorem setup_step_idempotent:
  "(is_initialized self \<longrightarrow> setup_step env self h = (Inr self, h)) \<and>
   pbind (setup_step env self) (setup_step env) h = setup_step env self h"
  by (auto simp add: setup_step_def prog_defs split: sum.splits)

theorem setup_step_idempotent_witness:
  "is_initialized example_step \<and>
   setup_step stub_env example_step example_log = (Inr example_step, example_log) \<and>
   pbind (setup_step stub_env example_step) (setup_step stub_env) example_log =
     setup_step stub_env example_step example_log"
  using setup_step_idempotent [of example_step stub_env example_log]
  by (simp add: example_step_def)

text \<open>
  C4. On a step whose flag is false, \<open>setup\<close> calls the optimizer factory on the step, then
  the model factory on the step (which by then holds the optimizer), then makes the
  variable \<open>tf.Variable(1)\<close>, the checkpoint over that variable, the optimizer and the model,
  and the checkpoint-manager over the checkpoint, the step's folder and \<open>max_to_keep = 3\<close>.
  When these calls return, it returns the step holding the four objects with its flag true.
\<close>

theorem setup_step_builds_in_order:
  assumes "\<not> is_initialized self"
    and "create_optimizer env h self = Inr opt"
    and "create_model env (h @ [CreateOptimizer self]) (self\<lparr>optimizer := Some opt\<rparr>) = Inr m"
    and "tf_Variable env
           (h @ [CreateOptimizer self, CreateModel (self\<lparr>optimizer := Some opt\<rparr>)]) 1 = Inr v"
    and "tf_train_Checkpoint env
           (h @ [CreateOptimizer self, CreateModel (self\<lparr>optimizer := Some opt\<rparr>),
                 TfVariable 1]) v opt m = Inr ck"
    and "tf_train_CheckpointManager env
           (h @ [CreateOptimizer self, CreateModel (self\<lparr>optimizer := Some opt\<rparr>),
                 TfVariable 1, TfCheckpoint v opt m])
           ck (tf_model_checkpoint_folder self) 3 = Inr cm"
  shows "setup_step env self h =
           (Inr (self\<lparr>optimizer := Some opt, model := Some m, checkpoint := Some ck,
                      checkpoint_manager := Some cm, is_initialized := True\<rparr>),
            h @ [CreateOptimizer self, CreateModel (self\<lparr>optimizer := Some opt\<rparr>),
                 TfVariable 1, TfCheckpoint v opt m,
                 TfCheckpointManager ck (tf_model_checkpoint_folder self) 3])"
  using assms by (simp add: setup_step_def prog_defs)

theorem setup_step_builds_in_order_witness:
  "setup_step stub_env (Tensorflow2ModelStep_init None) [] =
     (Inr ((Tensorflow2ModelStep_init None)
             \<lparr>optimizer := Some (Optimizer 0), model := Some (Model 1),
              checkpoint := Some (Checkpoint 3),
              checkpoint_manager := Some (CheckpointManager 4), is_initialized := True\<rparr>),
      [] @ [CreateOptimizer (Tensorflow2ModelStep_init None),
            CreateModel ((Tensorflow2ModelStep_init None)\<lparr>optimizer := Some (Optimizer 0)\<rparr>),
            TfVariable 1, TfCheckpoint (Variable 2) (Optimizer 0) (Model 1),
            TfCheckpointManager (Checkpoint 3)
              (tf_model_checkpoint_folder (Tensorflow2ModelStep_init None)) 3])"
  by (rule setup_step_builds_in_order) (simp_all add: init_defs stub_env_def)

text \<open>
  C5. In every state of the step, \<open>strip\<close> sets the model, the optimizer, the checkpoint and
  the checkpoint-manager to \<open>None\<close> and changes no other field: the initialization flag, the
  checkpoint folder, the loss and whatever else the step carries are as before.
\<close>

theorem strip_clears_references_only:
  "optimizer (strip self) = None \<and> model (strip self) = None \<and>
   checkpoint (strip self) = None \<and> checkpoint_manager (strip self) = None \<and>
   is_initialized (strip self) = is_initialized self \<and>
   tf_model_checkpoint_folder (strip self) = tf_model_checkpoint_folder self \<and>
   loss (strip self) = loss self \<and>
   step.more (strip self) = step.more self"
  by (simp add: strip_def)




subsection \<open>Training\<close>

text \<open>
  C7. Let the step hold a model \<open>m\<close> and an optimizer \<open>opt\<close>. When the calls return, \<open>fit\<close>
  converts both arguments, enters the tape, calls the model on the converted input and the
  loss factory on the step, the converted target and the output, and leaves the tape. After
  that it reads the model's trainable variables, asks the tape for the gradients of the
  loss just stored with respect to them, reads the trainable variables again, and calls
  \<open>apply_gradients\<close> once, on the gradients paired by position with the variables. It
  returns the step with \<open>loss\<close> set to the loss computed in this call.
\<close>

theorem fit_one_training_step:
  assumes "model self = Some m" and "optimizer self = Some opt"
    and "tf_convert_to_tensor env h data_inputs = Inr x"
    and "tf_convert_to_tensor env (h @ [ConvertToTensor data_inputs]) expected_outputs = Inr y"
    and "tf_GradientTape env
           (h @ [ConvertToTensor data_inputs, ConvertToTensor expected_outputs]) = Inr tape"
    and "model_call env
           (h @ [ConvertToTensor data_inputs, ConvertToTensor expected_outputs, TapeEnter])
           m x = Inr output"
    and "create_loss env
           (h @ [ConvertToTensor data_inputs, ConvertToTensor expected_outputs, TapeEnter,
                 CallModel m x]) self y output = Inr l"
    and "trainable_variables env
           (h @ [ConvertToTensor data_inputs, ConvertToTensor expected_outputs, TapeEnter,
                 CallModel m x, CreateLoss self y output, TapeExit tape]) m = Inr sources"
    and "tape_gradient env
           (h @ [ConvertToTensor data_inputs, ConvertToTensor expected_outputs, TapeEnter,
                 CallModel m x, CreateLoss self y output, TapeExit tape,
                 TrainableVariables m]) tape (Some l) sources = Inr grads"
    and "trainable_variables env
           (h @ [ConvertToTensor data_inputs, ConvertToTensor expected_outputs, TapeEnter,
                 CallModel m x, CreateLoss self y output, TapeExit tape,
                 TrainableVariables m, TapeGradient tape (Some l) sources]) m = Inr vars"
    and "apply_gradients env
           (h @ [ConvertToTensor data_inputs, ConvertToTensor expected_outputs, TapeEnter,
                 CallModel m x, CreateLoss self y output, TapeExit tape,
                 TrainableVariables m, TapeGradient tape (Some l) sources,
                 TrainableVariables m]) opt (zip grads vars) = Inr ()"
  shows "fit env self data_inputs expected_outputs h =
           (Inr (self\<lparr>loss := Some l\<rparr>),
            h @ [ConvertToTensor data_inputs, ConvertToTensor expected_outputs, TapeEnter,
                 CallModel m x, CreateLoss self y output, TapeExit tape,
                 TrainableVariables m, TapeGradient tape (Some l) sources,
                 TrainableVariables m, ApplyGradients opt (zip grads vars)])"
  using assms
  by (simp add: fit_def call_model_def get_trainable_variables_def prog_defs)

theorem fit_one_training_step_witness:
  "fit stub_env example_step (PyArray [1, 2]) (PyArray [3]) example_log =
     (Inr (example_step\<lparr>loss := Some (Tensor 9)\<rparr>),
      example_log @
        [ConvertToTensor (PyArray [1, 2]), ConvertToTensor (PyArray [3]), TapeEnter,
         CallModel (Model 1) (Tensor 5), CreateLoss example_step (Tensor 6) (Tensor 8),
         TapeExit (GradientTape 7), TrainableVariables (Model 1),
         TapeGradient (GradientTape 7) (Some (Tensor 9)) [Variable 100, Variable 101],
         TrainableVariables (Model 1),
         ApplyGradients (Optimizer 0)
           (zip [Tensor 12, Tensor 12] [Variable 100, Variable 101])])"
  by (rule fit_one_training_step)
    (simp_all add: example_step_def example_log_def stub_env_def)

text \<open>
  C10. \<open>fit\<close> called without a target has \<open>None\<close> as \<open>expected_outputs\<close>. For every step,
  once the input is converted the next call is the conversion of \<open>None\<close> itself, before
  anything else. When that conversion raises, \<open>fit\<close> raises the same exception and has
  made no further call. When it returns \<open>y\<close>, the forward pass follows and the loss factory
  receives that \<open>y\<close>: no other target is put in its place.
\<close>

theorem fit_passes_None_to_conversion:
  assumes "tf_convert_to_tensor env h data_inputs = Inr x"
  shows "(\<exists>rest. snd (fit env self data_inputs PyNone h) =
            h @ [ConvertToTensor data_inputs, ConvertToTensor PyNone] @ rest) \<and>
         (\<forall>e. tf_convert_to_tensor env (h @ [ConvertToTensor data_inputs]) PyNone = Inl e \<longrightarrow>
            fit env self data_inputs PyNone h =
              (Inl e, h @ [ConvertToTensor data_inputs, ConvertToTensor PyNone])) \<and>
         (\<forall>y tape m output.
            tf_convert_to_tensor env (h @ [ConvertToTensor data_inputs]) PyNone = Inr y \<longrightarrow>
            tf_GradientTape env (h @ [ConvertToTensor data_inputs, ConvertToTensor PyNone])
              = Inr tape \<longrightarrow>
            model self = Some m \<longrightarrow>
            model_call env
              (h @ [ConvertToTensor data_inputs, ConvertToTensor PyNone, TapeEnter]) m x
              = Inr output \<longrightarrow>
            (\<exists>rest. snd (fit env self data_inputs PyNone h) =
               h @ [ConvertToTensor data_inputs, ConvertToTensor PyNone, TapeEnter,
                    CallModel m x, CreateLoss self y output] @ rest))"
  using assms
  by (auto simp add: fit_def call_model_def get_trainable_variables_def prog_defs
           split: sum.splits option.splits prod.splits)

theorem fit_passes_None_to_conversion_witness:
  "fit strict_env example_step (PyArray [1, 2]) PyNone example_log =
     (Inl (Raised ''ValueError''),
      example_log @ [ConvertToTensor (PyArray [1, 2]), ConvertToTensor PyNone]) \<and>
   (\<exists>rest. snd (fit stub_env example_step (PyArray [1, 2]) PyNone example_log) =
      example_log @
        [ConvertToTensor (PyArray [1, 2]), ConvertToTensor PyNone, TapeEnter,
         CallModel (Model 1) (Tensor 5), CreateLoss example_step (Tensor 6) (Tensor 8)] @ rest)"
proof -
  have strict_input:
    "tf_convert_to_tensor strict_env example_log (PyArray [1, 2]) = Inr (Tensor 5)"
    by (simp add: strict_env_def stub_env_def example_log_def)
  have strict_none:
    "tf_convert_to_tensor strict_env (example_log @ [ConvertToTensor (PyArray [1, 2])]) PyNone
       = Inl (Raised ''ValueError'')"
    by (simp add: strict_env_def)
  have stub_input:
    "tf_convert_to_tensor stub_env example_log (PyArray [1, 2]) = Inr (Tensor 5)"
    by (simp add: stub_env_def example_log_def)
  have stub_none:
    "tf_convert_to_tensor stub_env (example_log @ [ConvertToTensor (PyArray [1, 2])]) PyNone
       = Inr (Tensor 6)"
    by (simp add: stub_env_def example_log_def)
  have stub_tape:
    "tf_GradientTape stub_env
       (example_log @ [ConvertToTensor (PyArray [1, 2]), ConvertToTensor PyNone])
       = Inr (GradientTape 7)"
    by (simp add: stub_env_def example_log_def)
  have stub_model: "model example_step = Some (Model 1)"
    by (simp add: example_step_def)
  have stub_output:
    "model_call stub_env
       (example_log @ [ConvertToTensor (PyArray [1, 2]), ConvertToTensor PyNone, TapeEnter])
       (Model 1) (Tensor 5) = Inr (Tensor 8)"
    by (simp add: stub_env_def example_log_def)
  from fit_passes_None_to_conversion [OF strict_input, of example_step] strict_none
  have raised:
    "fit strict_env example_step (PyArray [1, 2]) PyNone example_log =
       (Inl (Raised ''ValueError''),
        example_log @ [ConvertToTensor (PyArray [1, 2]), ConvertToTensor PyNone])"
    by blast
  from fit_passes_None_to_conversion [OF stub_input, of example_step]
    stub_none stub_tape stub_model stub_output
  have returned:
    "\<exists>rest. snd (fit stub_env example_step (PyArray [1, 2]) PyNone example_log) =
       example_log @
         [ConvertToTensor (PyArray [1, 2]), ConvertToTensor PyNone, TapeEnter,
          CallModel (Model 1) (Tensor 5), CreateLoss example_step (Tensor 6) (Tensor 8)] @ rest"
    by blast
  from raised returned show ?thesis by (rule conjI)
qed

subsection \<open>The checkpoint folder\<close>

text \<open>
  C9. The constructor stores its folder argument, and \<open>'tensorflow_ckpts'\<close> when the
  argument is \<open>None\<close> or omitted. No public operation changes the folder: in every state
  reached from construction with the flag false, \<open>setup\<close> binds the checkpoint-manager to
  the folder given at construction, or to \<open>'tensorflow_ckpts'\<close> when none was given.
\<close>

theorem checkpoint_folder_default_and_binding:
  assumes "run env ops (Tensorflow2ModelStep_init folder_arg) h0 = (Inr s, h)"
    and "\<not> is_initialized s"
    and "create_optimizer env h s = Inr opt"
    and "create_model env (h @ [CreateOptimizer s]) (s\<lparr>optimizer := Some opt\<rparr>) = Inr m"
    and "tf_Variable env (h @ [CreateOptimizer s, CreateModel (s\<lparr>optimizer := Some opt\<rparr>)]) 1
           = Inr v"
    and "tf_train_Checkpoint env
           (h @ [CreateOptimizer s, CreateModel (s\<lparr>optimizer := Some opt\<rparr>), TfVariable 1])
           v opt m = Inr ck"
  shows "tf_model_checkpoint_folder (Tensorflow2ModelStep_init folder_arg) =
           (case folder_arg of None \<Rightarrow> ''tensorflow_ckpts'' | Some folder \<Rightarrow> folder) \<and>
         snd (setup_step env s h) =
           h @ [CreateOptimizer s, CreateModel (s\<lparr>optimizer := Some opt\<rparr>), TfVariable 1,
                TfCheckpoint v opt m,
                TfCheckpointManager ck
                  (case folder_arg of None \<Rightarrow> ''tensorflow_ckpts'' | Some folder \<Rightarrow> folder) 3]"
proof -
  have constructed:
    "tf_model_checkpoint_folder (Tensorflow2ModelStep_init folder_arg) =
       (case folder_arg of None \<Rightarrow> ''tensorflow_ckpts'' | Some folder \<Rightarrow> folder)"
    by (simp add: init_defs)
  with run_folder [OF assms(1)]
  have kept:
    "tf_model_checkpoint_folder s =
       (case folder_arg of None \<Rightarrow> ''tensorflow_ckpts'' | Some folder \<Rightarrow> folder)"
    by simp
  have "snd (setup_step env s h) =
          h @ [CreateOptimizer s, CreateModel (s\<lparr>optimizer := Some opt\<rparr>), TfVariable 1,
               TfCheckpoint v opt m, TfCheckpointManager ck (tf_model_checkpoint_folder s) 3]"
    using assms(2-) by (simp add: setup_step_def prog_defs split: sum.splits)
  with constructed kept show ?thesis by simp
qed

theorem checkpoint_folder_default_and_binding_witness:
  "tf_model_checkpoint_folder (Tensorflow2ModelStep_init None) = ''tensorflow_ckpts'' \<and>
   snd (setup_step stub_env (strip (Tensorflow2ModelStep_init None)) []) =
     [CreateOptimizer (strip (Tensorflow2ModelStep_init None)),
      CreateModel ((strip (Tensorflow2ModelStep_init None))\<lparr>optimizer := Some (Optimizer 0)\<rparr>),
      TfVariable 1, TfCheckpoint (Variable 2) (Optimizer 0) (Model 1),
      TfCheckpointManager (Checkpoint 3) ''tensorflow_ckpts'' 3] \<and>
   tf_model_checkpoint_folder (Tensorflow2ModelStep_init (Some ''tmp_ckpts'')) = ''tmp_ckpts'' \<and>
   snd (setup_step stub_env (Tensorflow2ModelStep_init (Some ''tmp_ckpts'')) []) =
     [CreateOptimizer (Tensorflow2ModelStep_init (Some ''tmp_ckpts'')),
      CreateModel
        ((Tensorflow2ModelStep_init (Some ''tmp_ckpts''))\<lparr>optimizer := Some (Optimizer 0)\<rparr>),
      TfVariable 1, TfCheckpoint (Variable 2) (Optimizer 0) (Model 1),
      TfCheckpointManager (Checkpoint 3) ''tmp_ckpts'' 3]"
proof -
  have stripped:
    "run stub_env [Strip] (Tensorflow2ModelStep_init None) [] =
       (Inr (strip (Tensorflow2ModelStep_init None)), [])"
    by (simp add: prog_defs)
  have constructed:
    "run stub_env [] (Tensorflow2ModelStep_init (Some ''tmp_ckpts'')) [] =
       (Inr (Tensorflow2ModelStep_init (Some ''tmp_ckpts'')), [])"
    by (simp add: prog_defs)
  from checkpoint_folder_default_and_binding
         [OF stripped, where opt = "Optimizer 0" and m = "Model 1" and v = "Variable 2"
            and ck = "Checkpoint 3"]
       checkpoint_folder_default_and_binding
         [OF constructed, where opt = "Optimizer 0" and m = "Model 1" and v = "Variable 2"
            and ck = "Checkpoint 3"]
  show ?thesis
    by (simp add: init_defs strip_def stub_env_def)
qed

end
